theory Spec2Isabelle
  imports Complex_Main "HOL-Library.AList" "HOL-Library.Sublist"
begin

section \<open>Inventory management system: the in-memory model of main.py\<close>

text \<open>
  The program keeps its data in module-level globals and every operation is a function
  that reads and mutates them. The model passes the globals as a record and returns the
  updated record together with what the function returned or raised.

  A time stamp is the string that \<open>datetime.now().strftime(...)\<close> produced; the clock is
  an input of the operations that read it.
\<close>

subsection \<open>Data\<close>

text \<open>
  Prices, stock levels, quantities, thresholds and periods are whatever numbers the caller
  hands over: no function of main.py converts or checks them, and the number fields of the
  front end deliver floats. A number is modelled by the exact rational it denotes, integer
  or not. The rounding of float arithmetic, NaN and the infinities are not modelled.
\<close>

type_synonym number = rat

text \<open>The inner dictionary \<open>{'Price': .., 'Category': .., 'Stock': ..}\<close> of one product.\<close>

record product =
  Price :: number
  Category :: string
  Stock :: number

text \<open>
  \<open>inventory\<close> is a Python \<open>dict\<close> from product name to the inner dictionary. A
  \<open>dict\<close> iterates in insertion order, assigning to an existing key keeps its place
  and assigning to a new key appends, so the model is an association list with
  \<open>AList.update\<close> for \<open>d[k] = v\<close> and \<open>AList.delete\<close> for \<open>del d[k]\<close>.
\<close>

type_synonym inventory_dict = "(string \<times> product) list"

text \<open>
  A row of \<open>transactions\<close>: (id, action, product name, quantity, user, time stamp);
  a row of \<open>sales\<close>: (id, product name, quantity, time stamp).
\<close>

type_synonym transaction = "int \<times> string \<times> string \<times> number \<times> string option \<times> string"

type_synonym sale = "int \<times> string \<times> number \<times> string"

text \<open>A row of the data frame built from the inventory: name, price, category, stock.\<close>

type_synonym row = "string \<times> number \<times> string \<times> number"

record state =
  inventory :: inventory_dict
  transactions :: "transaction list"
  sales :: "sale list"
  admin_credentials :: "string \<rightharpoonup> string"
  user_credentials :: "string \<rightharpoonup> string"
  logged_in_user :: "string option"
  user_role :: "string option"

text \<open>
  The exceptions that leave an operation: \<open>NameError\<close> carries the unbound name,
  \<open>ValueError\<close> comes from the data-frame and regression libraries.
\<close>

datatype py_exception = NameError string | ValueError

text \<open>
  What a call hands back to its caller: a message or file name, a data frame of
  inventory rows, a data frame of audit rows, or an exception that nothing catches.
  \<open>Sold q n\<close> is the string of the f-string \<open>f"Sold {q} of '{n}'"\<close>, kept with its two
  arguments: the text of a number is that of an int or of a float, which the rational it
  denotes does not tell.
\<close>

datatype result =
  Str string
  | Sold number string
  | Frame "row list"
  | TxFrame "transaction list"
  | Raise py_exception

text \<open>The globals as the module initialises them, before \<open>load_data\<close> reads any file.\<close>

definition initial_state :: state where
  "initial_state =
     \<lparr>inventory = [], transactions = [], sales = [],
      admin_credentials = [''harsh'' \<mapsto> ''harsh''],
      user_credentials = [''user'' \<mapsto> ''user''],
      logged_in_user = None, user_role = None\<rparr>"

subsection \<open>Authentication\<close>

text \<open>
  \<open>username in admin_credentials and admin_credentials[username] == password\<close>: the key is
  present and its value is the password, that is, the lookup yields \<open>Some password\<close>.
\<close>

definition login :: "string \<Rightarrow> string \<Rightarrow> state \<Rightarrow> result \<times> state" where
  "login username password st =
     (if admin_credentials st username = Some password then
        (Str ''Admin login successful'',
         st\<lparr>logged_in_user := Some username, user_role := Some ''admin''\<rparr>)
      else if user_credentials st username = Some password then
        (Str ''User login successful'',
         st\<lparr>logged_in_user := Some username, user_role := Some ''user''\<rparr>)
      else (Str ''Invalid credentials'', st))"


definition is_admin :: "state \<Rightarrow> bool" where
  "is_admin st = (user_role st = Some ''admin'')"

definition is_logged_in :: "state \<Rightarrow> bool" where
  "is_logged_in st = (logged_in_user st \<noteq> None)"

subsection \<open>Persistence calls\<close>

text \<open>
  main.py calls three persistence helpers. \<open>save_sales\<close> is defined in the file: it
  rewrites the CSV file and touches no global. \<open>save_inventory\<close> and
  \<open>save_transactions\<close> are called but main.py neither defines nor imports a function of
  either name, so evaluating the call looks the name up in the module's globals and in the
  builtins, finds nothing and raises \<open>NameError\<close>. Each helper is modelled by the
  exception its call raises, if any.
\<close>

definition save_inventory :: "py_exception option" where
  "save_inventory = Some (NameError ''save_inventory'')"

definition save_transactions :: "py_exception option" where
  "save_transactions = Some (NameError ''save_transactions'')"

definition save_sales :: "py_exception option" where
  "save_sales = None"

subsection \<open>Sales\<close>

text \<open>A name between single quotes, as the f-strings of the confirmations print it.\<close>

definition quoted :: "string \<Rightarrow> string" where
  "quoted s = [CHR 0x27] @ s @ [CHR 0x27]"

text \<open>
  \<open>sale_product\<close>: the three guards return a message and touch nothing. Past them the
  stock is decremented in place, then \<open>save_inventory()\<close> is called; the statements
  after it (the append to \<open>sales\<close>, \<open>save_sales()\<close> and the confirmation) run only if
  that call returns.
\<close>

definition sale_product :: "string \<Rightarrow> number \<Rightarrow> string \<Rightarrow> state \<Rightarrow> result \<times> state" where
  "sale_product product_name quantity now st =
     (if \<not> is_logged_in st then (Str ''Please login to perform this action'', st)
      else
        (case map_of (inventory st) product_name of
           None \<Rightarrow> (Str ''Product not found'', st)
         | Some p \<Rightarrow>
             if Stock p < quantity then (Str ''Insufficient stock'', st)
             else
               (let st1 = st\<lparr>inventory :=
                     AList.update product_name (p\<lparr>Stock := Stock p - quantity\<rparr>) (inventory st)\<rparr>
                in
                  (case save_inventory of
                     Some e \<Rightarrow> (Raise e, st1)
                   | None \<Rightarrow>
                       (let sale_id = int (length (sales st1)) + 1;
                            st2 = st1\<lparr>sales := sales st1 @ [(sale_id, product_name, quantity, now)]\<rparr>
                        in
                          (case save_sales of
                             Some e \<Rightarrow> (Raise e, st2)
                           | None \<Rightarrow>
                               (Sold quantity product_name, st2)))))))"

subsection \<open>Audit log\<close>

text \<open>
  \<open>log_transaction\<close> reads the clock, appends the row numbered \<open>len(transactions)+1\<close>
  and then calls \<open>save_transactions()\<close>. It returns the exception of that call, if any,
  with the globals as the append left them.
\<close>

definition log_transaction ::
  "string \<Rightarrow> string \<Rightarrow> number \<Rightarrow> string \<Rightarrow> state \<Rightarrow> py_exception option \<times> state" where
  "log_transaction action product_name quantity now st =
     (let st1 = st\<lparr>transactions := transactions st @
                  [(int (length (transactions st)) + 1, action, product_name, quantity,
                    logged_in_user st, now)]\<rparr>
      in (save_transactions, st1))"

subsection \<open>Inventory mutations\<close>

text \<open>
  \<open>add_product\<close>, \<open>update_product\<close> and \<open>delete_product\<close> share one shape: the login
  guard, the admin guard, the membership test, then the change of \<open>inventory\<close>, then
  \<open>save_inventory()\<close>, then \<open>log_transaction(...)\<close>, then the confirmation. An
  exception leaves the function at the call that raised it, with the globals as written
  so far.
\<close>

definition add_product ::
  "string \<Rightarrow> number \<Rightarrow> string \<Rightarrow> number \<Rightarrow> string \<Rightarrow> state \<Rightarrow> result \<times> state" where
  "add_product product_name price category stock now st =
     (if \<not> is_logged_in st then (Str ''Please login to perform this action'', st)
      else if \<not> is_admin st then (Str ''Admin access required'', st)
      else if map_of (inventory st) product_name \<noteq> None then (Str ''Product already exists'', st)
      else
        let st1 = st\<lparr>inventory :=
                    AList.update product_name
                      \<lparr>Price = price, Category = category, Stock = stock\<rparr> (inventory st)\<rparr>
        in
          (case save_inventory of
             Some e \<Rightarrow> (Raise e, st1)
           | None \<Rightarrow>
              (case log_transaction ''Add'' product_name stock now st1 of
                 (Some e, st2) \<Rightarrow> (Raise e, st2)
               | (None, st2) \<Rightarrow>
                   (Str (''Product '' @ quoted product_name @ '' added successfully.''), st2))))"

definition update_product ::
  "string \<Rightarrow> number \<Rightarrow> string \<Rightarrow> number \<Rightarrow> string \<Rightarrow> state \<Rightarrow> result \<times> state" where
  "update_product product_name price category stock now st =
     (if \<not> is_logged_in st then (Str ''Please login to perform this action'', st)
      else if \<not> is_admin st then (Str ''Admin access required'', st)
      else if map_of (inventory st) product_name = None then (Str ''Product not found'', st)
      else
        let st1 = st\<lparr>inventory :=
                    AList.update product_name
                      \<lparr>Price = price, Category = category, Stock = stock\<rparr> (inventory st)\<rparr>
        in
          (case save_inventory of
             Some e \<Rightarrow> (Raise e, st1)
           | None \<Rightarrow>
              (case log_transaction ''Update'' product_name stock now st1 of
                 (Some e, st2) \<Rightarrow> (Raise e, st2)
               | (None, st2) \<Rightarrow>
                   (Str (''Product '' @ quoted product_name @ '' updated successfully.''), st2))))"

definition delete_product :: "string \<Rightarrow> string \<Rightarrow> state \<Rightarrow> result \<times> state" where
  "delete_product product_name now st =
     (if \<not> is_logged_in st then (Str ''Please login to perform this action'', st)
      else if \<not> is_admin st then (Str ''Admin access required'', st)
      else if map_of (inventory st) product_name = None then (Str ''Product not found'', st)
      else
        let st1 = st\<lparr>inventory := AList.delete product_name (inventory st)\<rparr>
        in
          (case save_inventory of
             Some e \<Rightarrow> (Raise e, st1)
           | None \<Rightarrow>
              (case log_transaction ''Delete'' product_name 0 now st1 of
                 (Some e, st2) \<Rightarrow> (Raise e, st2)
               | (None, st2) \<Rightarrow>
                   (Str (''Product '' @ quoted product_name @ '' deleted successfully.''), st2))))"

subsection \<open>Reading the inventory\<close>

text \<open>
  The three statements \<open>df = pd.DataFrame.from_dict(d, orient='index')\<close>,
  \<open>df.reset_index(inplace=True)\<close> and \<open>df.columns = [four names]\<close>. For a dictionary with
  entries the frame has one row per entry, in the dictionary's order, the key first. For
  an empty dictionary the frame has no column, \<open>reset_index\<close> gives it the single index
  column, and naming four columns where there is one raises \<open>ValueError\<close>.
\<close>

definition inventory_frame :: "inventory_dict \<Rightarrow> py_exception + row list" where
  "inventory_frame d =
     (if d = [] then Inl ValueError
      else Inr (map (\<lambda>(k, v). (k, Price v, Category v, Stock v)) d))"

definition view_inventory :: "state \<Rightarrow> result \<times> state" where
  "view_inventory st =
     (if \<not> is_logged_in st then (Str ''Please login to view the inventory'', st)
      else
        (case inventory_frame (inventory st) of
           Inl e \<Rightarrow> (Raise e, st)
         | Inr df \<Rightarrow> (Frame df, st)))"

text \<open>
  \<open>search_products_by_category\<close>: \<open>if category:\<close> is false for \<open>None\<close> and for the empty
  string, and then nothing is filtered; \<open>a in b\<close> on strings is the substring test.
  \<open>str.lower\<close> is Python's, with its case mapping of every cased letter of Unicode: it is
  the first argument of the model.
\<close>

definition search_products_by_category ::
  "(string \<Rightarrow> string) \<Rightarrow> string option \<Rightarrow> state \<Rightarrow> result \<times> state" where
  "search_products_by_category lower category st =
     (if \<not> is_logged_in st then (Str ''Please login to search products'', st)
      else
        let filtered_inventory =
              (case category of
                 None \<Rightarrow> inventory st
               | Some c \<Rightarrow>
                   if c = [] then inventory st
                   else filter (\<lambda>(k, v). sublist (lower c) (lower (Category v))) (inventory st))
        in
          (case inventory_frame filtered_inventory of
             Inl e \<Rightarrow> (Raise e, st)
           | Inr df \<Rightarrow> (Frame df, st)))"

definition low_stock_alerts :: "number \<Rightarrow> state \<Rightarrow> result \<times> state" where
  "low_stock_alerts threshold st =
     (if \<not> is_logged_in st then (Str ''Please login to view low stock alerts'', st)
      else
        let low_stock_items = filter (\<lambda>(product, details). Stock details \<le> threshold) (inventory st)
        in
          (case inventory_frame low_stock_items of
             Inl e \<Rightarrow> (Raise e, st)
           | Inr df \<Rightarrow> (Frame df, st)))"

text \<open>
  \<open>sort_inventory\<close> hands the frame to \<open>DataFrame.sort_values(by=by,
  ascending=(order == 'asc'))\<close> when \<open>by\<close> is one of the four column names and returns
  the frame as built otherwise. \<open>sort_values\<close> belongs to the data-frame library, not to
  this program: it is the first argument of the model.
\<close>

definition columns :: "string list" where
  "columns = [''Product Name'', ''Price'', ''Category'', ''Stock'']"

definition sort_inventory ::
  "(string \<Rightarrow> bool \<Rightarrow> row list \<Rightarrow> row list) \<Rightarrow> string \<Rightarrow> string \<Rightarrow> state \<Rightarrow> result \<times> state" where
  "sort_inventory sort_values by order st =
     (if \<not> is_logged_in st then (Str ''Please login to sort the inventory'', st)
      else
        (case inventory_frame (inventory st) of
           Inl e \<Rightarrow> (Raise e, st)
         | Inr df \<Rightarrow>
             if by \<in> set columns then (Frame (sort_values by (order = ''asc'') df), st)
             else (Frame df, st)))"

definition view_transactions :: "state \<Rightarrow> result \<times> state" where
  "view_transactions st =
     (if \<not> is_logged_in st then (Str ''Please login to view transactions'', st)
      else (TxFrame (transactions st), st))"

subsection \<open>Sales prediction\<close>

text \<open>
  \<open>predict_sales\<close> builds a frame from \<open>sales\<close>, parses its time stamps, keeps the rows
  of the product, buckets them by month, fits \<open>LinearRegression\<close>, plots and saves the
  image. It has two \<open>return\<close> statements, the login message and the name of the image
  file, no test on the rows it kept and no handler: every other way out is an exception
  of a library call. What the pandas, scikit-learn and matplotlib calls do is not part of
  this program: it is the argument \<open>pipeline\<close>, which gets the whole ledger (parsed before
  the selection), the selected rows and the number of periods and tells the exception the
  calls raise, if any. The rows selected may be none; they are handed over all the same.
\<close>

definition predict_sales ::
  "(sale list \<Rightarrow> sale list \<Rightarrow> number \<Rightarrow> py_exception option) \<Rightarrow>
     string \<Rightarrow> number \<Rightarrow> state \<Rightarrow> result \<times> state" where
  "predict_sales pipeline product_name periods st =
     (if \<not> is_logged_in st then (Str ''Please login to perform this action'', st)
      else
        let sales_df = filter (\<lambda>(sale_id, name, quantity, stamp). name = product_name) (sales st)
        in
          (case pipeline (sales st) sales_df periods of
             Some e \<Rightarrow> (Raise e, st)
           | None \<Rightarrow> (Str ''sales_prediction.png'', st)))"

subsection \<open>Sequences of operations\<close>









subsection \<open>Example states\<close>

text \<open>
  Concrete globals on which the theorems below are exercised: the administrator and the
  plain user of the source's credential tables after their login, a shop with one product,
  and credential tables that hold one name twice.
\<close>

definition admin_session :: state where
  "admin_session = initial_state\<lparr>logged_in_user := Some ''harsh'', user_role := Some ''admin''\<rparr>"

definition user_session :: state where
  "user_session = initial_state\<lparr>logged_in_user := Some ''user'', user_role := Some ''user''\<rparr>"

definition widget :: product where
  "widget = \<lparr>Price = 999 / 100, Category = ''Tools'', Stock = 40\<rparr>"

definition shop :: state where
  "shop = user_session\<lparr>inventory := [(''Widget'', widget)]\<rparr>"

definition shared_name :: state where
  "shared_name = user_session
     \<lparr>admin_credentials := [''harsh'' \<mapsto> ''harsh'', ''sam'' \<mapsto> ''pw''],
      user_credentials := [''user'' \<mapsto> ''user'', ''sam'' \<mapsto> ''pw'']\<rparr>"

definition admin_shop :: state where
  "admin_shop = admin_session\<lparr>inventory := [(''Widget'', widget)]\<rparr>"

definition other_sales :: state where
  "other_sales = shop\<lparr>sales := [(1, ''Gadget'', 3, ''2024-01-05 09:00:00'')]\<rparr>"

text \<open>
  Two behaviours of the libraries behind \<open>predict_sales\<close>: calls that all return, and
  calls of which one rejects a selection without rows.
\<close>

definition no_pipeline :: "sale list \<Rightarrow> sale list \<Rightarrow> number \<Rightarrow> py_exception option" where
  "no_pipeline ledger rows periods = None"

definition rejecting_pipeline :: "sale list \<Rightarrow> sale list \<Rightarrow> number \<Rightarrow> py_exception option" where
  "rejecting_pipeline ledger rows periods = (if rows = [] then Some ValueError else None)"





section \<open>Properties\<close>

subsection \<open>What the operations do past their guards\<close>

text \<open>
  Assigning to a key that the dictionary does not hold appends the entry.
\<close>

lemma update_absent: "map_of al k = None \<Longrightarrow> AList.update k v al = al @ [(k, v)]"
  by (induction al) (auto split: if_splits)

text \<open>
  Every mutation that passes its guards writes the inventory and then stops at
  \<open>save_inventory()\<close>: the audit row and the sale row, which the source writes after
  that call, are never written.
\<close>

lemma add_product_past_guards:
  "is_logged_in st \<Longrightarrow> is_admin st \<Longrightarrow> map_of (inventory st) n = None \<Longrightarrow>
     add_product n pr c s now st =
       (Raise (NameError ''save_inventory''),
        st\<lparr>inventory := inventory st @ [(n, \<lparr>Price = pr, Category = c, Stock = s\<rparr>)]\<rparr>)"
  by (simp add: add_product_def save_inventory_def update_absent)

lemma update_product_past_guards:
  "is_logged_in st \<Longrightarrow> is_admin st \<Longrightarrow> map_of (inventory st) n = Some old \<Longrightarrow>
     update_product n pr c s now st =
       (Raise (NameError ''save_inventory''),
        st\<lparr>inventory :=
          AList.update n \<lparr>Price = pr, Category = c, Stock = s\<rparr> (inventory st)\<rparr>)"
  by (simp add: update_product_def save_inventory_def)

lemma delete_product_past_guards:
  "is_logged_in st \<Longrightarrow> is_admin st \<Longrightarrow> map_of (inventory st) n = Some old \<Longrightarrow>
     delete_product n now st =
       (Raise (NameError ''save_inventory''),
        st\<lparr>inventory := AList.delete n (inventory st)\<rparr>)"
  by (simp add: delete_product_def save_inventory_def)

lemma sale_product_past_guards:
  "is_logged_in st \<Longrightarrow> map_of (inventory st) n = Some p \<Longrightarrow> \<not> Stock p < q \<Longrightarrow>
     sale_product n q now st =
       (Raise (NameError ''save_inventory''),
        st\<lparr>inventory := AList.update n (p\<lparr>Stock := Stock p - q\<rparr>) (inventory st)\<rparr>)"
  by (simp add: sale_product_def save_inventory_def)

text \<open>
  \<open>log_transaction\<close> itself numbers the row it appends with the length of the log plus
  one, before its own persistence call raises.
\<close>

lemma log_transaction_appends:
  "log_transaction a n q now st =
     (Some (NameError ''save_transactions''),
      st\<lparr>transactions := transactions st @
        [(int (length (transactions st)) + 1, a, n, q, logged_in_user st, now)]\<rparr>)"
  by (simp add: log_transaction_def save_transactions_def)

subsection \<open>Guards\<close>

text \<open>
  Claim C8. With no active session each of add, update, delete, view, search, low stock,
  sort, sell, view transactions and predict returns its "Please login ..." message and
  leaves every global as it was. With a session whose role is not the administrator's,
  add, update and delete return "Admin access required" and leave every global as it was.
\<close>

theorem guards_reject:
  "(\<not> is_logged_in st \<longrightarrow>
      add_product n pr c s now st = (Str ''Please login to perform this action'', st) \<and>
      update_product n pr c s now st = (Str ''Please login to perform this action'', st) \<and>
      delete_product n now st = (Str ''Please login to perform this action'', st) \<and>
      view_inventory st = (Str ''Please login to view the inventory'', st) \<and>
      search_products_by_category lower cat st = (Str ''Please login to search products'', st) \<and>
      low_stock_alerts threshold st = (Str ''Please login to view low stock alerts'', st) \<and>
      sort_inventory sort_values by order st = (Str ''Please login to sort the inventory'', st) \<and>
      sale_product n q now st = (Str ''Please login to perform this action'', st) \<and>
      view_transactions st = (Str ''Please login to view transactions'', st) \<and>
      predict_sales pipeline n periods st = (Str ''Please login to perform this action'', st)) \<and>
   (is_logged_in st \<and> \<not> is_admin st \<longrightarrow>
      add_product n pr c s now st = (Str ''Admin access required'', st) \<and>
      update_product n pr c s now st = (Str ''Admin access required'', st) \<and>
      delete_product n now st = (Str ''Admin access required'', st))"
  by (simp add: add_product_def update_product_def delete_product_def view_inventory_def
      search_products_by_category_def low_stock_alerts_def sort_inventory_def sale_product_def
      view_transactions_def predict_sales_def)

theorem guards_reject_witness:
  "\<not> is_logged_in initial_state \<and>
   add_product ''Widget'' 1 ''Tools'' 5 ''t'' initial_state
     = (Str ''Please login to perform this action'', initial_state) \<and>
   update_product ''Widget'' 1 ''Tools'' 5 ''t'' initial_state
     = (Str ''Please login to perform this action'', initial_state) \<and>
   delete_product ''Widget'' ''t'' initial_state
     = (Str ''Please login to perform this action'', initial_state) \<and>
   view_inventory initial_state = (Str ''Please login to view the inventory'', initial_state) \<and>
   search_products_by_category (\<lambda>s. s) (Some ''tools'') initial_state
     = (Str ''Please login to search products'', initial_state) \<and>
   low_stock_alerts 10 initial_state = (Str ''Please login to view low stock alerts'', initial_state) \<and>
   sort_inventory (\<lambda>by asc df. df) ''Stock'' ''desc'' initial_state
     = (Str ''Please login to sort the inventory'', initial_state) \<and>
   sale_product ''Widget'' 1 ''t'' initial_state
     = (Str ''Please login to perform this action'', initial_state) \<and>
   view_transactions initial_state = (Str ''Please login to view transactions'', initial_state) \<and>
   predict_sales no_pipeline ''Widget'' 12 initial_state
     = (Str ''Please login to perform this action'', initial_state) \<and>
   is_logged_in shop \<and> \<not> is_admin shop \<and>
   add_product ''Gadget'' 1 ''Tools'' 5 ''t'' shop = (Str ''Admin access required'', shop) \<and>
   update_product ''Widget'' 1 ''Tools'' 5 ''t'' shop = (Str ''Admin access required'', shop) \<and>
   delete_product ''Widget'' ''t'' shop = (Str ''Admin access required'', shop)"
proof -
  have out: "\<not> is_logged_in initial_state"
    by (simp add: is_logged_in_def initial_state_def)
  have usr: "is_logged_in shop \<and> \<not> is_admin shop"
    by (simp add: is_logged_in_def is_admin_def shop_def user_session_def initial_state_def)
  from guards_reject [of initial_state "''Widget''" 1 "''Tools''" 5 "''t''" "\<lambda>s. s" "Some ''tools''" 10
      "\<lambda>by asc df. df" "''Stock''" "''desc''" 1 no_pipeline 12] out
       guards_reject [of shop "''Gadget''" 1 "''Tools''" 5 "''t''"]
       guards_reject [of shop "''Widget''" 1 "''Tools''" 5 "''t''"] usr
  show ?thesis by simp
qed

subsection \<open>Login\<close>

text \<open>
  Claim C9. \<open>login\<close> looks the pair up in the administrators' table first: when it matches
  there the session becomes that of an administrator, whatever the users' table holds for
  the same name. Only when it does not match there is the users' table consulted, and a
  match gives a user session. When neither table matches the answer is
  "Invalid credentials".
\<close>

theorem login_admin_table_first:
  "(admin_credentials st u = Some p \<longrightarrow>
      login u p st =
        (Str ''Admin login successful'', st\<lparr>logged_in_user := Some u, user_role := Some ''admin''\<rparr>)) \<and>
   (admin_credentials st u \<noteq> Some p \<and> user_credentials st u = Some p \<longrightarrow>
      login u p st =
        (Str ''User login successful'', st\<lparr>logged_in_user := Some u, user_role := Some ''user''\<rparr>)) \<and>
   (admin_credentials st u \<noteq> Some p \<and> user_credentials st u \<noteq> Some p \<longrightarrow>
      login u p st = (Str ''Invalid credentials'', st))"
  by (simp add: login_def)

theorem login_admin_table_first_witness:
  "admin_credentials shared_name ''sam'' = Some ''pw'' \<and>
   user_credentials shared_name ''sam'' = Some ''pw'' \<and>
   login ''sam'' ''pw'' shared_name =
     (Str ''Admin login successful'',
      shared_name\<lparr>logged_in_user := Some ''sam'', user_role := Some ''admin''\<rparr>) \<and>
   admin_credentials shared_name ''user'' \<noteq> Some ''user'' \<and>
   user_credentials shared_name ''user'' = Some ''user'' \<and>
   login ''user'' ''user'' shared_name =
     (Str ''User login successful'',
      shared_name\<lparr>logged_in_user := Some ''user'', user_role := Some ''user''\<rparr>) \<and>
   admin_credentials shared_name ''sam'' \<noteq> Some ''guess'' \<and>
   user_credentials shared_name ''sam'' \<noteq> Some ''guess'' \<and>
   login ''sam'' ''guess'' shared_name = (Str ''Invalid credentials'', shared_name)"
  using login_admin_table_first [of shared_name "''sam''" "''pw''"]
        login_admin_table_first [of shared_name "''user''" "''user''"]
        login_admin_table_first [of shared_name "''sam''" "''guess''"]
  by (simp add: shared_name_def user_session_def initial_state_def)

text \<open>
  Claim C10. A login whose credentials match neither table answers "Invalid credentials"
  and returns the globals as they were, so the principal and the role of the session that
  was active stay in place. Whenever \<open>login\<close> does change the globals, it answered with one
  of its two success messages.
\<close>

theorem failed_login_keeps_session:
  "(admin_credentials st u \<noteq> Some p \<and> user_credentials st u \<noteq> Some p \<longrightarrow>
      fst (login u p st) = Str ''Invalid credentials'' \<and>
      snd (login u p st) = st \<and>
      logged_in_user (snd (login u p st)) = logged_in_user st \<and>
      user_role (snd (login u p st)) = user_role st) \<and>
   (snd (login u p st) \<noteq> st \<longrightarrow>
      fst (login u p st) = Str ''Admin login successful'' \<or>
      fst (login u p st) = Str ''User login successful'')"
  by (simp add: login_def)

theorem failed_login_keeps_session_witness:
  "admin_credentials admin_session ''harsh'' \<noteq> Some ''wrong'' \<and>
   user_credentials admin_session ''harsh'' \<noteq> Some ''wrong'' \<and>
   fst (login ''harsh'' ''wrong'' admin_session) = Str ''Invalid credentials'' \<and>
   snd (login ''harsh'' ''wrong'' admin_session) = admin_session \<and>
   logged_in_user (snd (login ''harsh'' ''wrong'' admin_session)) = Some ''harsh'' \<and>
   user_role (snd (login ''harsh'' ''wrong'' admin_session)) = Some ''admin'' \<and>
   snd (login ''user'' ''user'' admin_session) \<noteq> admin_session \<and>
   fst (login ''user'' ''user'' admin_session) = Str ''User login successful''"
proof -
  have neither: "admin_credentials admin_session ''harsh'' \<noteq> Some ''wrong'' \<and>
      user_credentials admin_session ''harsh'' \<noteq> Some ''wrong''"
    by (simp add: admin_session_def initial_state_def)
  have role: "user_role (snd (login ''user'' ''user'' admin_session)) = Some ''user''"
    by (simp add: login_def admin_session_def initial_state_def)
  have changed: "snd (login ''user'' ''user'' admin_session) \<noteq> admin_session"
  proof
    assume "snd (login ''user'' ''user'' admin_session) = admin_session"
    with role have "user_role admin_session = Some ''user''" by simp
    then show False by (simp add: admin_session_def initial_state_def)
  qed
  have not_admin_msg: "fst (login ''user'' ''user'' admin_session) \<noteq> Str ''Admin login successful''"
    by (simp add: login_def admin_session_def initial_state_def)
  from failed_login_keeps_session [of admin_session "''harsh''" "''wrong''"] neither
  have a: "fst (login ''harsh'' ''wrong'' admin_session) = Str ''Invalid credentials'' \<and>
      snd (login ''harsh'' ''wrong'' admin_session) = admin_session"
    by blast
  from failed_login_keeps_session [of admin_session "''user''" "''user''"] changed not_admin_msg
  have b: "fst (login ''user'' ''user'' admin_session) = Str ''User login successful''"
    by blast
  from a b neither changed show ?thesis
    by (simp add: admin_session_def initial_state_def)
qed


subsection \<open>Sales\<close>

text \<open>
  Claim C1. A sale of more than the stock on hand, by a logged-in principal, returns the
  message "Insufficient stock" and a sale of a product that is not in the inventory returns
  "Product not found"; in both cases every global (inventory, sales, transactions, session)
  is left as it was.
\<close>

theorem sale_product_rejects:
  "is_logged_in st \<Longrightarrow>
     (map_of (inventory st) p = Some pr \<and> Stock pr < q
        \<longrightarrow> sale_product p q now st = (Str ''Insufficient stock'', st)) \<and>
     (map_of (inventory st) p = None
        \<longrightarrow> sale_product p q now st = (Str ''Product not found'', st))"
  by (simp add: sale_product_def)

theorem sale_product_rejects_witness:
  "is_logged_in shop \<and>
   map_of (inventory shop) ''Widget'' = Some widget \<and> Stock widget < 1000 \<and>
   sale_product ''Widget'' 1000 ''2024-01-01 10:00:00'' shop = (Str ''Insufficient stock'', shop) \<and>
   map_of (inventory shop) ''Gadget'' = None \<and>
   sale_product ''Gadget'' 1 ''2024-01-01 10:00:00'' shop = (Str ''Product not found'', shop)"
  using sale_product_rejects [of shop "''Widget''" widget 1000 "''2024-01-01 10:00:00''"]
        sale_product_rejects [of shop "''Gadget''" widget 1 "''2024-01-01 10:00:00''"]
  by (simp add: shop_def user_session_def initial_state_def is_logged_in_def widget_def)

text \<open>
  Claim C2. A sale that passes the guards should leave the sales ledger one row longer.
  Selling 10 of the 40 widgets as the logged-in user: the stock becomes 30 and the other
  globals stay, but the call ends in \<open>NameError\<close> at \<open>save_inventory()\<close> and the
  ledger, empty before, is empty afterwards.
\<close>

theorem sale_product_name_error:
  "sale_product ''Widget'' 10 ''2024-01-01 10:00:00'' shop =
     (Raise (NameError ''save_inventory''),
      shop\<lparr>inventory := [(''Widget'', \<lparr>Price = 999 / 100, Category = ''Tools'', Stock = 30\<rparr>)]\<rparr>) \<and>
   sales shop = [] \<and>
   sales (snd (sale_product ''Widget'' 10 ''2024-01-01 10:00:00'' shop)) = []"
  by (simp add: sale_product_def save_inventory_def shop_def user_session_def initial_state_def
      is_logged_in_def widget_def)

subsection \<open>Audit log\<close>

text \<open>
  Claim C3. An add, update or delete that passes its guards should append one audit row
  numbered with the previous length plus one. For the administrator, adding a new product,
  updating the product on hand and deleting it each change the inventory and end in
  \<open>NameError\<close> at \<open>save_inventory()\<close>; the audit log, empty before, is empty after each
  of them.
\<close>

theorem mutations_write_no_audit_row:
  "add_product ''Widget'' (999 / 100) ''Tools'' 50 ''2024-01-01 09:00:00'' admin_session =
     (Raise (NameError ''save_inventory''),
      admin_session\<lparr>inventory :=
        [(''Widget'', \<lparr>Price = 999 / 100, Category = ''Tools'', Stock = 50\<rparr>)]\<rparr>) \<and>
   update_product ''Widget'' 12 ''Tools'' 7 ''2024-01-01 09:00:00'' admin_shop =
     (Raise (NameError ''save_inventory''),
      admin_shop\<lparr>inventory := [(''Widget'', \<lparr>Price = 12, Category = ''Tools'', Stock = 7\<rparr>)]\<rparr>) \<and>
   delete_product ''Widget'' ''2024-01-01 09:00:00'' admin_shop =
     (Raise (NameError ''save_inventory''), admin_shop\<lparr>inventory := []\<rparr>) \<and>
   transactions admin_session = [] \<and> transactions admin_shop = [] \<and>
   transactions (snd (add_product ''Widget'' (999 / 100) ''Tools'' 50 ''2024-01-01 09:00:00''
     admin_session)) = [] \<and>
   transactions (snd (update_product ''Widget'' 12 ''Tools'' 7 ''2024-01-01 09:00:00'' admin_shop)) = [] \<and>
   transactions (snd (delete_product ''Widget'' ''2024-01-01 09:00:00'' admin_shop)) = []"
  by (simp add: add_product_def update_product_def delete_product_def save_inventory_def
      admin_shop_def admin_session_def initial_state_def is_logged_in_def is_admin_def widget_def)

subsection \<open>Adding a product\<close>

text \<open>
  Claim C5. For the administrator, adding a name that is in the inventory returns
  "Product already exists" and changes nothing; adding a new name should insert the
  product, append an audit row with action Add and the stock as quantity, and show in the
  next view. Adding the widget to the empty inventory inserts it with the given price,
  category and stock, and the next view shows exactly that row, but the call ends in
  \<open>NameError\<close> at \<open>save_inventory()\<close> and no audit row is written.
\<close>

theorem add_product_then_view:
  "add_product ''Widget'' (999 / 100) ''Tools'' 50 ''2024-01-01 09:00:00'' admin_session =
     (Raise (NameError ''save_inventory''),
      admin_session\<lparr>inventory :=
        [(''Widget'', \<lparr>Price = 999 / 100, Category = ''Tools'', Stock = 50\<rparr>)]\<rparr>) \<and>
   transactions (snd (add_product ''Widget'' (999 / 100) ''Tools'' 50 ''2024-01-01 09:00:00''
     admin_session)) = [] \<and>
   fst (view_inventory (snd (add_product ''Widget'' (999 / 100) ''Tools'' 50
     ''2024-01-01 09:00:00'' admin_session))) = Frame [(''Widget'', 999 / 100, ''Tools'', 50)] \<and>
   add_product ''Widget'' 1 ''Toys'' 2 ''2024-01-01 09:00:00'' admin_shop =
     (Str ''Product already exists'', admin_shop)"
  by (simp add: add_product_def view_inventory_def inventory_frame_def save_inventory_def
      admin_shop_def admin_session_def initial_state_def is_logged_in_def is_admin_def widget_def)

subsection \<open>Stock levels\<close>





















subsection \<open>Prediction without sales\<close>

lemma no_rows:
  "p \<notin> set (map (\<lambda>(sale_id, name, quantity, stamp). name) xs) \<Longrightarrow>
     filter (\<lambda>(sale_id, name, quantity, stamp). name = p) xs = []"
  by (induction xs) auto

text \<open>
  Claim C7, as the source has it. \<open>predict_sales\<close> has no test for an empty history and no
  failure value for it. For the logged-in user and a ledger without any sale the outcome
  is that of the library calls on a selection without rows: an exception that nothing
  catches when one of them rejects it, the name of the image file when they all return.
  Neither is a failure reported to the caller.
\<close>

theorem predict_sales_no_history_counterexample:
  "predict_sales rejecting_pipeline ''Widget'' 12 shop = (Raise ValueError, shop) \<and>
   predict_sales no_pipeline ''Widget'' 12 shop = (Str ''sales_prediction.png'', shop)"
  by (simp add: predict_sales_def rejecting_pipeline_def no_pipeline_def shop_def
      user_session_def initial_state_def is_logged_in_def)

text \<open>
  Claim C7, amended. For every logged-in session and every product name that no row of
  the sales ledger carries, \<open>predict_sales\<close> makes no test for the missing history and
  reports no failure of its own: it hands the selection without rows to the library calls
  as it hands any other, and its outcome is theirs, the name of the image file when they
  return and the exception when one of them raises. Every global is left as it was.
\<close>

theorem predict_sales_no_history:
  "is_logged_in st \<Longrightarrow>
   p \<notin> set (map (\<lambda>(sale_id, name, quantity, stamp). name) (sales st)) \<Longrightarrow>
     predict_sales pipeline p periods st =
       (case pipeline (sales st) [] periods of
          None \<Rightarrow> (Str ''sales_prediction.png'', st)
        | Some e \<Rightarrow> (Raise e, st)) \<and>
     snd (predict_sales pipeline p periods st) = st \<and>
     (fst (predict_sales pipeline p periods st) = Str ''sales_prediction.png'' \<or>
      (\<exists>e. fst (predict_sales pipeline p periods st) = Raise e))"
  by (simp add: predict_sales_def no_rows split: option.splits)

theorem predict_sales_no_history_witness:
  "is_logged_in other_sales \<and>
   ''Widget'' \<notin> set (map (\<lambda>(sale_id, name, quantity, stamp). name) (sales other_sales)) \<and>
   predict_sales rejecting_pipeline ''Widget'' 12 other_sales = (Raise ValueError, other_sales) \<and>
   predict_sales no_pipeline ''Widget'' 12 other_sales
     = (Str ''sales_prediction.png'', other_sales)"
proof -
  have a: "is_logged_in other_sales"
    by (simp add: other_sales_def shop_def user_session_def initial_state_def is_logged_in_def)
  have b: "''Widget'' \<notin> set (map (\<lambda>(sale_id, name, quantity, stamp). name) (sales other_sales))"
    by (simp add: other_sales_def)
  from predict_sales_no_history [OF a b, of rejecting_pipeline 12]
       predict_sales_no_history [OF a b, of no_pipeline 12] a b
  show ?thesis by (simp add: rejecting_pipeline_def no_pipeline_def)
qed

end
